theory Spec2Isabelle
  imports Complex_Main "HOL-Library.Sublist"
begin

section \<open>Numbers\<close>

text \<open>
  Python floats are modelled as exact reals: every constant of the source (0.015, 0.6, ...)
  is the decimal fraction it is written as, and arithmetic does not round.

  \<open>round(x, n)\<close> of Python rounds to \<open>n\<close> decimals, ties going to the even neighbour.
\<close>

definition py_round_int :: "real \<Rightarrow> int" where
  "py_round_int x =
     (let f = \<lfloor>x\<rfloor>; d = x - of_int f
      in if d < 1 / 2 then f
         else if 1 / 2 < d then f + 1
         else if even f then f else f + 1)"

definition py_round :: "nat \<Rightarrow> real \<Rightarrow> real" where
  "py_round n x = of_int (py_round_int (x * 10 ^ n)) / 10 ^ n"

section \<open>best\_bets.py\<close>

definition american_odds_to_probability :: "int \<Rightarrow> real" where
  "american_odds_to_probability odds =
     (if odds < 0 then of_int \<bar>odds\<bar> / (of_int \<bar>odds\<bar> + 100)
      else 100 / (of_int odds + 100))"

definition american_odds_to_decimal :: "int \<Rightarrow> real" where
  "american_odds_to_decimal odds =
     (if odds < 0 then 1 + 100 / of_int \<bar>odds\<bar> else 1 + of_int odds / 100)"

text \<open>The score before the final \<open>round(score, 4)\<close>.\<close>

definition raw_bet_score :: "real \<Rightarrow> int \<Rightarrow> real \<Rightarrow> real" where
  "raw_bet_score predicted_prob odds confidence =
     (let base_score = predicted_prob * 0.6;
          confidence_score = confidence * 0.4;
          implied_prob = american_odds_to_probability odds;
          odds_factor = 1 - (implied_prob - 0.5) * 0.2
      in (base_score + confidence_score) * odds_factor)"

definition calculate_bet_score :: "real \<Rightarrow> int \<Rightarrow> real \<Rightarrow> real" where
  "calculate_bet_score predicted_prob odds confidence =
     py_round 4 (raw_bet_score predicted_prob odds confidence)"

definition meets_odds_criteria :: "int \<Rightarrow> int \<Rightarrow> bool" where
  "meets_odds_criteria max_odds odds = (if odds \<ge> 0 then True else odds \<ge> max_odds)"

definition spread_to_probability :: "real \<Rightarrow> real" where
  "spread_to_probability edge =
     (if \<bar>edge\<bar> < 0.5 then 0.50
      else
        let prob =
          (if \<bar>edge\<bar> \<le> 5 then 0.50 + edge * 0.015
           else if \<bar>edge\<bar> \<le> 10 then
             (let base = 0.50 + 5 * 0.015;
                  additional = (\<bar>edge\<bar> - 5) * 0.012
              in base + (if edge > 0 then additional else - additional))
           else if \<bar>edge\<bar> \<le> 20 then
             (let base = 0.50 + 5 * 0.015 + 5 * 0.012;
                  additional = (\<bar>edge\<bar> - 10) * 0.006
              in base + (if edge > 0 then additional else - additional))
           else
             (let base = 0.50 + 5 * 0.015 + 5 * 0.012 + 10 * 0.006;
                  additional = min ((\<bar>edge\<bar> - 20) * 0.001) 0.005
              in base + (if edge > 0 then additional else - additional)))
        in max 0.50 (min 0.70 prob))"

definition total_to_probability :: "real \<Rightarrow> real" where
  "total_to_probability edge =
     (let abs_edge = \<bar>edge\<bar>
      in if abs_edge < 0.5 then 0.50
         else
           let prob =
             (if abs_edge \<le> 6 then 0.50 + edge * 0.012
              else if abs_edge \<le> 12 then
                (let base = 0.50 + 6 * 0.012;
                     additional = (abs_edge - 6) * 0.008
                 in base + (if edge > 0 then additional else - additional))
              else if abs_edge \<le> 20 then
                (let base = 0.50 + 6 * 0.012 + 6 * 0.008;
                     additional = (abs_edge - 12) * 0.003
                 in base + (if edge > 0 then additional else - additional))
              else
                (let base = 0.50 + 6 * 0.012 + 6 * 0.008 + 8 * 0.003;
                     additional = min ((abs_edge - 20) * 0.0005) 0.006
                 in base + (if edge > 0 then additional else - additional)))
           in max 0.50 (min 0.65 prob))"

text \<open>
  \<open>_adjust_confidence_for_edge\<close> compares \<open>bet_type\<close> with \<open>'spread'\<close>; every other
  string takes the total branch.
\<close>

definition adjust_confidence_for_edge :: "real \<Rightarrow> real \<Rightarrow> string \<Rightarrow> real" where
  "adjust_confidence_for_edge base_confidence edge bet_type =
     (let abs_edge = \<bar>edge\<bar>;
          adjustment =
            (if bet_type = ''spread'' then
               (if abs_edge < 2 then 0.95
                else if abs_edge < 5 then 1.0
                else if abs_edge < 10 then 1.05
                else if abs_edge < 15 then 1.0
                else if abs_edge < 20 then 0.92
                else 0.85)
             else
               (if abs_edge < 3 then 0.92
                else if abs_edge < 7 then 1.0
                else if abs_edge < 12 then 1.03
                else if abs_edge < 18 then 0.94
                else 0.87));
          adjusted = base_confidence * adjustment
      in py_round 3 (max 0.25 (min 0.88 adjusted)))"

section \<open>model.py: recent form\<close>

text \<open>
  A recent game as \<open>analyze_recent_form\<close> reads it: \<open>game.get('home_score', 0)\<close>,
  \<open>game.get('away_score', 0)\<close> and \<open>game.get('home_team_id')\<close>; an absent key is
  \<open>None\<close> here.
\<close>

record recent_game =
  home_score :: "real option"
  away_score :: "real option"
  home_team_id :: "int option"

record form_metrics =
  win_rate :: real
  avg_margin :: real
  scoring_trend :: real
  consistency :: real

definition np_mean :: "real list \<Rightarrow> real" where
  "np_mean xs = sum_list xs / real (length xs)"

definition np_std :: "real list \<Rightarrow> real" where
  "np_std xs = sqrt (np_mean (map (\<lambda>x. (x - np_mean xs)\<^sup>2) xs))"

definition np_linspace :: "real \<Rightarrow> real \<Rightarrow> nat \<Rightarrow> real list" where
  "np_linspace start stop n =
     (if n = 1 then [start]
      else map (\<lambda>i. start + real i * ((stop - start) / real (n - 1))) [0..<n])"

definition np_average :: "real list \<Rightarrow> real list \<Rightarrow> real" where
  "np_average xs ws = sum_list (map2 (*) xs ws) / sum_list ws"

definition is_home :: "recent_game \<Rightarrow> int \<Rightarrow> bool" where
  "is_home game team_id = (home_team_id game = Some team_id)"

definition team_score :: "recent_game \<Rightarrow> int \<Rightarrow> real" where
  "team_score game team_id =
     (let hs = (case home_score game of None \<Rightarrow> 0 | Some v \<Rightarrow> v);
          as = (case away_score game of None \<Rightarrow> 0 | Some v \<Rightarrow> v)
      in if is_home game team_id then hs else as)"

definition opp_score :: "recent_game \<Rightarrow> int \<Rightarrow> real" where
  "opp_score game team_id =
     (let hs = (case home_score game of None \<Rightarrow> 0 | Some v \<Rightarrow> v);
          as = (case away_score game of None \<Rightarrow> 0 | Some v \<Rightarrow> v)
      in if is_home game team_id then as else hs)"

definition sample_size_factor :: "nat \<Rightarrow> real" where
  "sample_size_factor num_games =
     (if num_games \<le> 2 then 0.3
      else if num_games \<le> 5 then 0.4 + (real num_games - 2) * 0.05
      else if num_games \<le> 10 then 0.55 + (real num_games - 5) * 0.04
      else min (0.75 + (real num_games - 10) * 0.02) 0.90)"

definition variance_factor :: "real list \<Rightarrow> real" where
  "variance_factor margins =
     (if length margins > 1 then
        (let margin_std = np_std margins
         in if margin_std < 8 then 0.75 - margin_std / 20
            else if margin_std < 12 then 0.6 + (12 - margin_std) / 40
            else if margin_std < 18 then 0.45 + (18 - margin_std) / 60
            else max 0.3 (0.45 - (margin_std - 18) / 100))
      else 0.4)"

definition quality_factor :: "real list \<Rightarrow> real" where
  "quality_factor margins =
     (if length margins \<ge> 3 then
        (let max_margin = Max (set margins);
             min_margin = Min (set margins);
             swing = max_margin - min_margin
         in if swing > 40 then max 0.3 (1 - (swing - 40) / 100) else 0.8)
      else 0.5)"

definition analyze_recent_form :: "recent_game list \<Rightarrow> int \<Rightarrow> form_metrics" where
  "analyze_recent_form recent_games team_id =
     (if recent_games = [] then
        \<lparr>win_rate = 0.5, avg_margin = 0, scoring_trend = 0, consistency = 0.3\<rparr>
      else
        let margins = map (\<lambda>g. team_score g team_id - opp_score g team_id) recent_games;
            results = map (\<lambda>m. m > 0) margins;
            scores = map (\<lambda>g. team_score g team_id) recent_games;
            wr = real (length (filter id results)) / real (length results);
            am = np_mean margins;
            weights = np_linspace 0.5 1.0 (length scores);
            st = np_average scores weights;
            num_games = length margins;
            c = sample_size_factor num_games * 0.5 + variance_factor margins * 0.3
                + quality_factor margins * 0.2;
            c' = py_round 3 (max 0.25 (min 0.85 c))
        in \<lparr>win_rate = wr, avg_margin = am, scoring_trend = st, consistency = c'\<rparr>)"

section \<open>model.py: team metrics and regression weight\<close>

text \<open>
  A team statistics dictionary maps keys to numbers; \<open>stats.get(key, default)\<close> is
  \<open>stats_get\<close>.
\<close>

type_synonym stats = "string \<rightharpoonup> real"

definition stats_get :: "stats \<Rightarrow> string \<Rightarrow> real \<Rightarrow> real" where
  "stats_get st k d = (case st k of None \<Rightarrow> d | Some v \<Rightarrow> v)"

record team_metrics =
  offensive_rating :: real
  defensive_rating :: real
  net_rating :: real
  true_shooting_pct :: real
  shooting_efficiency :: real
  effective_fg_pct :: real
  turnover_ratio :: real
  offensive_rebound_pct :: real
  free_throw_rate :: real
  opp_effective_fg_pct :: real
  opp_turnover_ratio :: real
  opp_offensive_rebound_pct :: real
  opp_free_throw_rate :: real
  rebound_rate :: real
  assist_to_turnover :: real
  defensive_intensity :: real
  pace :: real

definition calculate_team_metrics :: "stats \<Rightarrow> team_metrics" where
  "calculate_team_metrics team_stats =
     (let ppg = stats_get team_stats ''points_per_game'' 0;
          opp_ppg = stats_get team_stats ''opponent_points_per_game'' 0;
          fg_pct = stats_get team_stats ''field_goal_percentage'' 0;
          three_pt_pct = stats_get team_stats ''three_point_percentage'' 0;
          ft_pct = stats_get team_stats ''free_throw_percentage'' 0;
          rebounds_pg = stats_get team_stats ''rebounds_per_game'' 0;
          assists_pg = stats_get team_stats ''assists_per_game'' 0;
          turnovers_pg = stats_get team_stats ''turnovers_per_game'' 0;
          steals_pg = stats_get team_stats ''steals_per_game'' 0;
          blocks_pg = stats_get team_stats ''blocks_per_game'' 0;
          off = stats_get team_stats ''offensive_rating'' ppg;
          def = stats_get team_stats ''defensive_rating'' opp_ppg;
          ts = stats_get team_stats ''true_shooting_pct'' 0
      in \<lparr>offensive_rating = off,
          defensive_rating = def,
          net_rating = off - def,
          true_shooting_pct = ts,
          shooting_efficiency =
            (if ts = 0 then
               (if fg_pct = 0 then 0 else fg_pct * 0.5 + three_pt_pct * 0.3 + ft_pct * 0.2)
             else ts),
          effective_fg_pct = stats_get team_stats ''effective_fg_pct'' fg_pct,
          turnover_ratio = stats_get team_stats ''turnover_ratio'' 0,
          offensive_rebound_pct = stats_get team_stats ''offensive_rebound_pct'' 0,
          free_throw_rate = stats_get team_stats ''free_throw_rate'' 0,
          opp_effective_fg_pct = stats_get team_stats ''opp_effective_fg_pct'' 0,
          opp_turnover_ratio = stats_get team_stats ''opp_turnover_ratio'' 0,
          opp_offensive_rebound_pct = stats_get team_stats ''opp_offensive_rebound_pct'' 0,
          opp_free_throw_rate = stats_get team_stats ''opp_free_throw_rate'' 0,
          rebound_rate = rebounds_pg,
          assist_to_turnover = (if turnovers_pg > 0 then assists_pg / turnovers_pg else 0),
          defensive_intensity = steals_pg + blocks_pg,
          pace = stats_get team_stats ''pace'' (ppg + opp_ppg)\<rparr>)"

text \<open>
  The market odds of a game, as the odds provider builds them. A key that is absent, or
  whose value is \<open>None\<close>, is \<open>None\<close> here; the record types leave out values of another
  type (so \<open>isinstance(spread_data, dict)\<close> holds whenever the key is there).
\<close>

record spread_odds =
  home_spread :: "real option"
  away_spread :: "real option"
  home_odds :: "int option"
  away_odds :: "int option"

record total_odds =
  line :: "real option"
  over_odds :: "int option"
  under_odds :: "int option"

record odds_data =
  spread :: "spread_odds option"
  total :: "total_odds option"

text \<open>The value under \<open>'start_date'\<close>: a string, or something that is not a string.\<close>

datatype date_value = DateStr string | DateOther

text \<open>
  The game dictionary that the callers pass as \<open>game\<close> and \<open>game_info\<close>. It may hold
  further keys, which the model does not read; \<open>other_keys\<close> says whether there are any
  (an empty dictionary is falsy in \<open>if game_info\<close>).
\<close>

record game_info =
  gi_id :: "int option"
  gi_home_team :: "string option"
  gi_away_team :: "string option"
  gi_home_conference :: "string option"
  gi_away_conference :: "string option"
  gi_start_date :: "date_value option"
  gi_odds :: "odds_data option"
  other_keys :: bool

definition present :: "'a option \<Rightarrow> bool" where
  "present x = (case x of None \<Rightarrow> False | Some _ \<Rightarrow> True)"

definition truthy :: "game_info option \<Rightarrow> bool" where
  "truthy game_info =
     (case game_info of
        None \<Rightarrow> False
      | Some g \<Rightarrow>
          present (gi_id g) \<or> present (gi_home_team g) \<or> present (gi_away_team g) \<or>
          present (gi_home_conference g) \<or> present (gi_away_conference g) \<or>
          present (gi_start_date g) \<or> present (gi_odds g) \<or> other_keys g)"

definition CONFERENCE_TIERS :: "string \<rightharpoonup> int" where
  "CONFERENCE_TIERS = map_of
     [(''Big Ten'', 1), (''SEC'', 1), (''Big 12'', 1), (''ACC'', 1),
      (''Big East'', 2), (''Pac-12'', 2),
      (''Mountain West'', 3), (''Atlantic 10'', 3), (''West Coast'', 3),
      (''American Athletic'', 3),
      (''Missouri Valley'', 4), (''Conference USA'', 4), (''Sun Belt'', 4),
      (''Mid-American'', 4), (''MAC'', 4),
      (''Horizon'', 5), (''WAC'', 5), (''Big West'', 5), (''Big Sky'', 5), (''Summit'', 5),
      (''Southern'', 5), (''Colonial'', 5), (''America East'', 5),
      (''Southland'', 6), (''Ohio Valley'', 6), (''MAAC'', 6), (''Northeast'', 6),
      (''Patriot'', 6), (''Atlantic Sun'', 6), (''Big South'', 6), (''SWAC'', 6),
      (''MEAC'', 6)]"

definition conference_tier :: "string option \<Rightarrow> int" where
  "conference_tier conf =
     (case CONFERENCE_TIERS (case conf of None \<Rightarrow> [] | Some c \<Rightarrow> c) of
        None \<Rightarrow> 7
      | Some t \<Rightarrow> t)"

definition base_weight :: "real \<Rightarrow> real" where
  "base_weight avg_games =
     (if avg_games \<le> 5 then 0.75 + (avg_games / 5) * 0.10
      else if avg_games \<le> 10 then 0.85 + ((avg_games - 5) / 5) * 0.07
      else if avg_games \<le> 20 then 0.92 + ((avg_games - 10) / 10) * 0.05
      else 0.97 + min ((avg_games - 20) / 20) 1.0 * 0.02)"

definition get_adaptive_regression_weight ::
  "stats \<Rightarrow> stats \<Rightarrow> recent_game list \<Rightarrow> recent_game list \<Rightarrow> game_info option \<Rightarrow> real"
where
  "get_adaptive_regression_weight home_stats away_stats home_recent away_recent game_info =
     (let home_games = stats_get home_stats ''games'' (real (length home_recent));
          away_games = stats_get away_stats ''games'' (real (length away_recent));
          avg_games = (home_games + away_games) / 2;
          home_metrics = calculate_team_metrics home_stats;
          away_metrics = calculate_team_metrics away_stats;
          net_rating_gap = \<bar>net_rating home_metrics - net_rating away_metrics\<bar>;
          off_rating_gap = \<bar>offensive_rating home_metrics - offensive_rating away_metrics\<bar>;
          def_rating_gap = \<bar>defensive_rating home_metrics - defensive_rating away_metrics\<bar>;
          max_gap = max net_rating_gap (max (off_rating_gap * 0.7) (def_rating_gap * 0.7));
          talent_boost0 =
            (if max_gap > 30 then 0.10
             else if max_gap > 20 then 0.07
             else if max_gap > 15 then 0.04
             else 0.00);
          home_wins = stats_get home_stats ''wins'' 0;
          away_wins = stats_get away_stats ''wins'' 0;
          talent_boost1 =
            (if home_games \<ge> 2 \<and> away_games \<ge> 2 then
               (let home_win_pct = home_wins / max 1 home_games;
                    away_win_pct = away_wins / max 1 away_games;
                    win_pct_gap = \<bar>home_win_pct - away_win_pct\<bar>
                in if win_pct_gap > 0.6 \<and> net_rating_gap < 15
                   then max talent_boost0 0.06 else talent_boost0)
             else talent_boost0);
          talent_boost2 =
            (if truthy game_info \<and> avg_games < 10 then
               (let home_conf = (case game_info of None \<Rightarrow> None
                                 | Some g \<Rightarrow> gi_home_conference g);
                    away_conf = (case game_info of None \<Rightarrow> None
                                 | Some g \<Rightarrow> gi_away_conference g);
                    home_tier = conference_tier home_conf;
                    away_tier = conference_tier away_conf;
                    tier_gap = \<bar>home_tier - away_tier\<bar>;
                    conference_boost0 =
                      (if tier_gap \<ge> 3 then 0.12
                       else if tier_gap \<ge> 2 then 0.08
                       else if tier_gap \<ge> 1 then 0.04
                       else 0.0);
                    conference_boost = conference_boost0 * ((10 - avg_games) / 10)
                in max talent_boost1 conference_boost)
             else talent_boost1)
      in min 0.99 (base_weight avg_games + talent_boost2))"

section \<open>model.py: spread and total prediction\<close>

text \<open>
  The model reads its data from \<open>self.api\<close>: \<open>get_team_stats(team_id)\<close> and
  \<open>get_recent_games(team_id, limit=10)\<close>.
\<close>

record api =
  get_team_stats :: "int \<Rightarrow> stats"
  get_recent_games :: "int \<Rightarrow> recent_game list"

definition validate_pace :: "real \<Rightarrow> real" where
  "validate_pace p = (if p \<le> 0 \<or> p < 55.0 \<or> p > 85.0 then 70.0 else p)"

definition validate_rating :: "real \<Rightarrow> real" where
  "validate_rating rating =
     (if rating \<le> 0 \<or> rating < 60.0 \<or> rating > 180.0 then 100.0 else rating)"

definition game_pace :: "stats \<Rightarrow> stats \<Rightarrow> real" where
  "game_pace home_stats away_stats =
     (let home_pace = validate_pace (pace (calculate_team_metrics home_stats));
          away_pace = validate_pace (pace (calculate_team_metrics away_stats))
      in home_pace * 0.55 + away_pace * 0.45)"

text \<open>The regression weight of \<open>predict_spread\<close>, after its safety check.\<close>

definition spread_regression_weight ::
  "stats \<Rightarrow> stats \<Rightarrow> recent_game list \<Rightarrow> recent_game list \<Rightarrow> game_info option \<Rightarrow> real"
where
  "spread_regression_weight home_stats away_stats home_recent away_recent game_info =
     (let base_regression_weight =
            get_adaptive_regression_weight home_stats away_stats home_recent away_recent
              game_info;
          home_wins = stats_get home_stats ''wins'' 0;
          home_losses = stats_get home_stats ''losses'' 0;
          away_wins = stats_get away_stats ''wins'' 0;
          away_losses = stats_get away_stats ''losses'' 0;
          home_games = stats_get home_stats ''games'' 0;
          away_games = stats_get away_stats ''games'' 0;
          home_unreliable = (home_games > 0 \<and> home_wins + home_losses = 0);
          away_unreliable = (away_games > 0 \<and> away_wins + away_losses = 0)
      in if (home_unreliable \<or> away_unreliable) \<and> home_games + away_games < 6
         then base_regression_weight * 0.60
         else if home_games + away_games < 4 then base_regression_weight * 0.80
         else base_regression_weight)"

text \<open>
  The projected scores of the two teams for a regression weight: the ratings blended
  towards the league average, the home-court boost, and the pace.
\<close>

definition projected_scores :: "stats \<Rightarrow> stats \<Rightarrow> real \<Rightarrow> real \<times> real" where
  "projected_scores home_stats away_stats regression_weight =
     (let home_metrics = calculate_team_metrics home_stats;
          away_metrics = calculate_team_metrics away_stats;
          home_off_rating = validate_rating (offensive_rating home_metrics);
          away_def_rating = validate_rating (defensive_rating away_metrics);
          away_off_rating = validate_rating (offensive_rating away_metrics);
          home_def_rating = validate_rating (defensive_rating home_metrics);
          league_avg = 100.0;
          home_off_adj = home_off_rating * regression_weight + league_avg * (1 - regression_weight);
          away_def_adj = away_def_rating * regression_weight + league_avg * (1 - regression_weight);
          away_off_adj = away_off_rating * regression_weight + league_avg * (1 - regression_weight);
          home_def_adj = home_def_rating * regression_weight + league_avg * (1 - regression_weight);
          home_court_boost = 3.5;
          home_expected_eff = home_off_adj + (away_def_adj - league_avg) + home_court_boost;
          away_expected_eff = away_off_adj + (home_def_adj - league_avg);
          gp = game_pace home_stats away_stats
      in ((home_expected_eff * gp) / 100, (away_expected_eff * gp) / 100))"

text \<open>The predicted spread before the market adjustment.\<close>

definition unblended_spread ::
  "stats \<Rightarrow> stats \<Rightarrow> recent_game list \<Rightarrow> recent_game list \<Rightarrow> int \<Rightarrow> int \<Rightarrow>
   game_info option \<Rightarrow> real"
where
  "unblended_spread home_stats away_stats home_recent away_recent home_id away_id
     game_info =
     (let home_form = analyze_recent_form home_recent home_id;
          away_form = analyze_recent_form away_recent away_id;
          regression_weight =
            spread_regression_weight home_stats away_stats home_recent away_recent game_info;
          (home_projected, away_projected) =
            projected_scores home_stats away_stats regression_weight;
          form_adjustment0 = (avg_margin home_form - avg_margin away_form) * 0.10;
          form_adjustment = max (-5) (min 5 form_adjustment0)
      in (home_projected - away_projected) + form_adjustment)"

definition market_home_spread :: "game_info option \<Rightarrow> real option" where
  "market_home_spread game_info =
     (case game_info of
        None \<Rightarrow> None
      | Some g \<Rightarrow>
          (case gi_odds g of
             None \<Rightarrow> None
           | Some odds_data \<Rightarrow>
               (case spread odds_data of
                  None \<Rightarrow> None
                | Some spread_data \<Rightarrow> home_spread spread_data)))"

definition blend_factor :: "real \<Rightarrow> nat \<Rightarrow> real" where
  "blend_factor market_mag num_games =
     (let games_factor = max 0.3 ((15 - real num_games) / 15)
      in if market_mag \<ge> 25 then 0.70 + games_factor * 0.20
         else if market_mag \<ge> 20 then 0.60 + games_factor * 0.20
         else if market_mag \<ge> 15 then 0.50 + games_factor * 0.15
         else 0.40 + games_factor * 0.10)"

text \<open>The market adjustment of \<open>predict_spread\<close>.\<close>

definition market_blend :: "game_info option \<Rightarrow> nat \<Rightarrow> real \<Rightarrow> real" where
  "market_blend game_info num_games predicted_spread =
     (if truthy game_info \<and> num_games < 15 then
        (case market_home_spread game_info of
           None \<Rightarrow> predicted_spread
         | Some market_spread \<Rightarrow>
             (let market_fav_home = (market_spread < 0);
                  model_fav_home = (predicted_spread > 0);
                  market_mag = \<bar>market_spread\<bar>;
                  model_mag = \<bar>predicted_spread\<bar>
              in if market_fav_home = model_fav_home then
                   (let gap = market_mag - model_mag
                    in if gap > 5 then
                         (let adjustment = gap * blend_factor market_mag num_games
                          in if market_fav_home then predicted_spread + adjustment
                             else predicted_spread - adjustment)
                       else predicted_spread)
                 else predicted_spread))
      else predicted_spread)"

definition spread_confidence :: "real \<Rightarrow> real \<Rightarrow> nat \<Rightarrow> real \<Rightarrow> real" where
  "spread_confidence home_consistency away_consistency num_games predicted_spread =
     (let base_confidence = (home_consistency + away_consistency) / 2;
          confidence0 = max 0.40 base_confidence;
          confidence1 =
            (if num_games < 4 then confidence0 * 0.90
             else if num_games < 8 then confidence0 * 0.95
             else confidence0);
          confidence2 =
            (if \<bar>predicted_spread\<bar> > 30 then confidence1 * 0.85
             else if \<bar>predicted_spread\<bar> > 20 then confidence1 * 0.92
             else if \<bar>predicted_spread\<bar> > 15 then confidence1 * 0.96
             else confidence1)
      in min confidence2 0.85)"

definition predict_spread :: "api \<Rightarrow> int \<Rightarrow> int \<Rightarrow> game_info option \<Rightarrow> real \<times> real" where
  "predict_spread a home_id away_id game_info =
     (let home_stats = get_team_stats a home_id;
          away_stats = get_team_stats a away_id;
          home_recent = get_recent_games a home_id;
          away_recent = get_recent_games a away_id;
          home_form = analyze_recent_form home_recent home_id;
          away_form = analyze_recent_form away_recent away_id;
          num_games = length home_recent + length away_recent;
          predicted_spread0 =
            unblended_spread home_stats away_stats home_recent away_recent home_id
              away_id game_info;
          predicted_spread1 = market_blend game_info num_games predicted_spread0;
          predicted_spread = max (-50) (min 50 predicted_spread1);
          confidence =
            spread_confidence (consistency home_form) (consistency away_form) num_games
              predicted_spread
      in (py_round 1 predicted_spread, py_round 3 confidence))"

text \<open>
  \<open>datetime.fromisoformat\<close> belongs to the Python library, not to this program: the
  model takes it as a parameter that gives year, month and day, or \<open>None\<close> where the
  library raises. \<open>iso_date\<close> below is the plain \<open>YYYY-MM-DD\<close> reading, for running the
  model.
\<close>

type_synonym date_parser = "string \<Rightarrow> (nat \<times> nat \<times> nat) option"

definition date_part :: "string \<Rightarrow> string" where
  "date_part start_date_str =
     filter (\<lambda>c. c \<noteq> CHR ''Z'') (takeWhile (\<lambda>c. c \<noteq> CHR ''T'') start_date_str)"

definition early_season_adjustment :: "date_parser \<Rightarrow> game_info option \<Rightarrow> real \<Rightarrow> real" where
  "early_season_adjustment fromisoformat game_info predicted_total =
     (if truthy game_info then
        (case game_info of
           None \<Rightarrow> predicted_total
         | Some g \<Rightarrow>
             (case gi_start_date g of
                None \<Rightarrow> predicted_total
              | Some DateOther \<Rightarrow> predicted_total
              | Some (DateStr start_date_str) \<Rightarrow>
                  (case fromisoformat (date_part start_date_str) of
                     None \<Rightarrow> predicted_total
                   | Some (year, month, day) \<Rightarrow>
                       if month = 11 then predicted_total * 0.95
                       else if month = 12 \<and> day \<le> 14 then predicted_total * 0.97
                       else predicted_total)))
      else predicted_total)"

text \<open>The sum of the two projected scores, before the early-season adjustment.\<close>

definition projected_total ::
  "stats \<Rightarrow> stats \<Rightarrow> recent_game list \<Rightarrow> recent_game list \<Rightarrow> game_info option \<Rightarrow> real"
where
  "projected_total home_stats away_stats home_recent away_recent game_info =
     (let regression_weight =
            get_adaptive_regression_weight home_stats away_stats home_recent away_recent
              game_info;
          (home_projected, away_projected) =
            projected_scores home_stats away_stats regression_weight
      in home_projected + away_projected)"

definition total_confidence :: "real \<Rightarrow> real \<Rightarrow> nat \<Rightarrow> real \<Rightarrow> real \<Rightarrow> real" where
  "total_confidence home_consistency away_consistency num_games predicted_total pace_diff =
     (let base_confidence = (home_consistency + away_consistency) / 2;
          confidence0 = max 0.35 base_confidence;
          confidence1 =
            (if num_games < 4 then confidence0 * 0.88
             else if num_games < 8 then confidence0 * 0.94
             else confidence0);
          league_avg_total = 142;
          total_deviation = \<bar>predicted_total - league_avg_total\<bar>;
          confidence2 =
            (if total_deviation > 30 then confidence1 * 0.80
             else if total_deviation > 20 then confidence1 * 0.88
             else if total_deviation > 15 then confidence1 * 0.94
             else confidence1);
          confidence3 = (if pace_diff > 15 then confidence2 * 0.90 else confidence2);
          confidence4 = confidence3 * 0.92
      in max 0.35 (min 0.75 confidence4))"

definition predict_total ::
  "date_parser \<Rightarrow> api \<Rightarrow> int \<Rightarrow> int \<Rightarrow> game_info option \<Rightarrow> real \<times> real"
where
  "predict_total fromisoformat a home_id away_id game_info =
     (let home_stats = get_team_stats a home_id;
          away_stats = get_team_stats a away_id;
          home_recent = get_recent_games a home_id;
          away_recent = get_recent_games a away_id;
          home_form = analyze_recent_form home_recent home_id;
          away_form = analyze_recent_form away_recent away_id;
          num_games = length home_recent + length away_recent;
          home_pace = validate_pace (pace (calculate_team_metrics home_stats));
          away_pace = validate_pace (pace (calculate_team_metrics away_stats));
          predicted_total0 =
            projected_total home_stats away_stats home_recent away_recent game_info;
          predicted_total1 = early_season_adjustment fromisoformat game_info predicted_total0;
          predicted_total = max 110 (min 200 predicted_total1);
          pace_diff = \<bar>home_pace - away_pace\<bar>;
          confidence =
            total_confidence (consistency home_form) (consistency away_form) num_games
              predicted_total pace_diff
      in (py_round 1 predicted_total, py_round 3 confidence))"

text \<open>Reading \<open>YYYY-MM-DD\<close>: four digits, two digits, two digits, a date of the calendar.\<close>

definition digit_val :: "char \<Rightarrow> nat option" where
  "digit_val c =
     (let n = (of_char c :: nat)
      in if 48 \<le> n \<and> n \<le> 57 then Some (n - 48) else None)"

fun digits_val :: "string \<Rightarrow> nat option" where
  "digits_val [] = Some 0"
| "digits_val cs =
     (case (digits_val (butlast cs), digit_val (last cs)) of
        (Some n, Some d) \<Rightarrow> Some (10 * n + d)
      | _ \<Rightarrow> None)"

definition days_in_month :: "nat \<Rightarrow> nat \<Rightarrow> nat" where
  "days_in_month year month =
     (if month = 2 then
        (if year mod 4 = 0 \<and> (year mod 100 \<noteq> 0 \<or> year mod 400 = 0) then 29 else 28)
      else if month \<in> {4, 6, 9, 11} then 30 else 31)"

definition iso_date :: date_parser where
  "iso_date s =
     (if length s = 10 \<and> s ! 4 = CHR ''-'' \<and> s ! 7 = CHR ''-'' then
        (case (digits_val (take 4 s), digits_val (take 2 (drop 5 s)),
               digits_val (take 2 (drop 8 s))) of
           (Some y, Some m, Some d) \<Rightarrow>
             if 1 \<le> y \<and> 1 \<le> m \<and> m \<le> 12 \<and> 1 \<le> d \<and> d \<le> days_in_month y m
             then Some (y, m, d) else None
         | _ \<Rightarrow> None)
      else None)"

section \<open>best\_bets.py: bets\<close>

text \<open>
  A bet dictionary. \<open>game_id\<close> is \<open>game.get('id', '')\<close>, with \<open>None\<close> for the default
  \<open>''\<close>; the key \<open>'score'\<close> is absent (\<open>None\<close>) until \<open>select_best_bets\<close> assigns it.
  Further keys of the dictionary are the extension of the record.
\<close>

record bet =
  game_id :: "int option"
  game_description :: string
  bet_type :: string
  pick :: string
  odds :: int
  predicted_prob :: real
  confidence :: real
  reasoning :: string
  score :: "real option"

text \<open>
  Python's string formatting of a number is the library's: \<open>fmt_str\<close> is \<open>f"{x}"\<close>,
  \<open>fmt_1f\<close> is \<open>f"{x:.1f}"\<close> and \<open>fmt_signed_1f\<close> is \<open>f"{x:+.1f}"\<close>.
\<close>

record formatter =
  fmt_str :: "real \<Rightarrow> string"
  fmt_1f :: "real \<Rightarrow> string"
  fmt_signed_1f :: "real \<Rightarrow> string"

text \<open>\<open>odds_data.get('total', {}).get('line', 140)\<close>\<close>

definition market_total_line :: "odds_data \<Rightarrow> real" where
  "market_total_line od =
     (case total od of
        None \<Rightarrow> 140
      | Some m \<Rightarrow> (case line m of None \<Rightarrow> 140 | Some v \<Rightarrow> v))"

definition create_bet_from_prediction ::
  "formatter \<Rightarrow> game_info \<Rightarrow> string \<Rightarrow> real \<Rightarrow> real \<Rightarrow> odds_data \<Rightarrow> bet list"
where
  "create_bet_from_prediction fmt game prediction_type prediction conf od =
     (let home_team = (case gi_home_team game of None \<Rightarrow> ''Home'' | Some t \<Rightarrow> t);
          away_team = (case gi_away_team game of None \<Rightarrow> ''Away'' | Some t \<Rightarrow> t);
          game_desc = away_team @ '' @ '' @ home_team
      in if prediction_type = ''spread'' then
           (let market_spread = spread od;
                get_r = (\<lambda>field d. case market_spread of None \<Rightarrow> d
                           | Some m \<Rightarrow> (case field m of None \<Rightarrow> d | Some v \<Rightarrow> v));
                get_i = (\<lambda>field d. case market_spread of None \<Rightarrow> d
                           | Some m \<Rightarrow> (case field m of None \<Rightarrow> d | Some v \<Rightarrow> v));
                hs = get_r home_spread 0;
                as = get_r away_spread 0;
                ho = get_i home_odds (-110);
                ao = get_i away_odds (-110);
                (pick_team, pick_spread, pick_odds, edge) =
                  (if prediction > 0 then
                     (if prediction > \<bar>hs\<bar> then (home_team, hs, ho, prediction - hs)
                      else (away_team, as, ao, as - prediction))
                   else
                     (if \<bar>prediction\<bar> > \<bar>as\<bar>
                      then (away_team, as, ao, \<bar>prediction\<bar> - \<bar>as\<bar>)
                      else (home_team, hs, ho, hs + \<bar>prediction\<bar>)));
                win_prob = spread_to_probability edge;
                adjusted_confidence = adjust_confidence_for_edge conf edge ''spread'';
                reason =
                  (if prediction > 0
                   then ''Model predicts '' @ home_team @ '' by '' @ fmt_1f fmt \<bar>prediction\<bar>
                   else if prediction < 0
                   then ''Model predicts '' @ away_team @ '' by '' @ fmt_1f fmt \<bar>prediction\<bar>
                   else ''Model predicts even game'')
            in [\<lparr>game_id = gi_id game,
                 game_description = game_desc,
                 bet_type = ''Spread'',
                 pick = pick_team @ '' '' @ fmt_signed_1f fmt pick_spread,
                 odds = pick_odds,
                 predicted_prob = win_prob,
                 confidence = adjusted_confidence,
                 reasoning = reason,
                 score = None\<rparr>])
         else if prediction_type = ''total'' then
           (let market_total = total od;
                total_line = market_total_line od;
                ov = (case market_total of None \<Rightarrow> -110
                      | Some m \<Rightarrow> (case over_odds m of None \<Rightarrow> -110 | Some v \<Rightarrow> v));
                un = (case market_total of None \<Rightarrow> -110
                      | Some m \<Rightarrow> (case under_odds m of None \<Rightarrow> -110 | Some v \<Rightarrow> v));
                (pk, pick_odds, edge) =
                  (if prediction > total_line
                   then (''Over '' @ fmt_str fmt total_line, ov, prediction - total_line)
                   else (''Under '' @ fmt_str fmt total_line, un, total_line - prediction));
                win_prob = total_to_probability edge;
                adjusted_confidence = adjust_confidence_for_edge conf edge ''total'';
                reason =
                  (if prediction > total_line
                   then ''Model predicts '' @ fmt_1f fmt prediction @ '' (Over ''
                        @ fmt_1f fmt total_line @ '' by '' @ fmt_1f fmt edge @ '')''
                   else ''Model predicts '' @ fmt_1f fmt prediction @ '' (Under ''
                        @ fmt_1f fmt total_line @ '' by '' @ fmt_1f fmt edge @ '')'')
            in [\<lparr>game_id = gi_id game,
                 game_description = game_desc,
                 bet_type = ''Total'',
                 pick = pk,
                 odds = pick_odds,
                 predicted_prob = win_prob,
                 confidence = adjusted_confidence,
                 reasoning = reason,
                 score = None\<rparr>])
         else [])"

text \<open>A decimal rendering with one digit after the point, for running the model.\<close>

fun nat_digits :: "nat \<Rightarrow> string" where
  "nat_digits n =
     (if n < 10 then [''0123456789'' ! n]
      else nat_digits (n div 10) @ [''0123456789'' ! (n mod 10)])"

definition fixed_1f :: "real \<Rightarrow> string" where
  "fixed_1f x =
     (let r = py_round_int (x * 10); a = nat \<bar>r\<bar>
      in (if r < 0 then ''-'' else []) @ nat_digits (a div 10) @ ''.'' @ nat_digits (a mod 10))"

definition signed_fixed_1f :: "real \<Rightarrow> string" where
  "signed_fixed_1f x = (if x < 0 then fixed_1f x else ''+'' @ fixed_1f x)"

definition decimal_formatter :: formatter where
  "decimal_formatter =
     \<lparr>fmt_str = fixed_1f, fmt_1f = fixed_1f, fmt_signed_1f = signed_fixed_1f\<rparr>"

section \<open>best\_bets.py: selection\<close>

text \<open>
  \<open>select_best_bets\<close> writes into the dictionaries of its argument, and returns a list of
  the same dictionaries. The bets live in a store of objects; a list of bets is a list of
  references into it, so one dictionary may occur twice in a list.
\<close>

type_synonym ref = nat

type_synonym 'a store = "ref \<Rightarrow> 'a bet_scheme"

definition assign_score :: "'a bet_scheme \<Rightarrow> 'a bet_scheme" where
  "assign_score b =
     b\<lparr>score := Some (calculate_bet_score (predicted_prob b) (odds b) (confidence b))\<rparr>"

definition eligible_bets :: "int \<Rightarrow> 'a store \<Rightarrow> ref list \<Rightarrow> ref list" where
  "eligible_bets max_odds st all_bets =
     filter (\<lambda>r. meets_odds_criteria max_odds (odds (st r))) all_bets"

definition score_all :: "'a store \<Rightarrow> ref list \<Rightarrow> 'a store" where
  "score_all st eligible = foldl (\<lambda>h r. h(r := assign_score (h r))) st eligible"

text \<open>
  \<open>sorted(..., key=lambda x: x['score'], reverse=True)\<close> is stable: bets of equal score
  keep their order. It is the stable ascending sort on the negated key.
\<close>

definition score_key :: "'a store \<Rightarrow> ref \<Rightarrow> real" where
  "score_key st r = the (score (st r))"

definition sorted_reverse :: "'a store \<Rightarrow> ref list \<Rightarrow> ref list" where
  "sorted_reverse st rs = sort_key (\<lambda>r. - score_key st r) rs"

definition select_best_bets :: "int \<Rightarrow> 'a store \<Rightarrow> ref list \<Rightarrow> 'a store \<times> ref list" where
  "select_best_bets max_odds st all_bets =
     (let eligible = eligible_bets max_odds st all_bets;
          st' = score_all st eligible;
          sorted_bets = sorted_reverse st' eligible
      in (st', take 5 sorted_bets))"

section \<open>Example data\<close>

definition example_bet :: "int \<Rightarrow> real \<Rightarrow> real \<Rightarrow> bet" where
  "example_bet od p c =
     \<lparr>game_id = None, game_description = [], bet_type = ''Spread'', pick = [],
      odds = od, predicted_prob = p, confidence = c, reasoning = [], score = None\<rparr>"

text \<open>Three bets: at -110 and +120 (both within -125), and at -150 (outside).\<close>

definition example_store :: "unit store" where
  "example_store r =
     (if r = 10 then example_bet (-110) 0.6 0.5
      else if r = 11 then example_bet (-150) 0.7 0.8
      else example_bet 120 0.65 0.6)"

definition example_game :: game_info where
  "example_game =
     \<lparr>gi_id = Some 401, gi_home_team = Some ''Duke'', gi_away_team = Some ''Elon'',
      gi_home_conference = Some ''ACC'', gi_away_conference = Some ''Colonial'',
      gi_start_date = Some (DateStr ''2024-11-05T00:30:00.000Z''),
      gi_odds = None, other_keys = False\<rparr>"

definition example_odds :: odds_data where
  "example_odds =
     \<lparr>spread = Some \<lparr>home_spread = Some (-20), away_spread = Some 20,
                      home_odds = Some (-110), away_odds = Some (-110)\<rparr>,
      total = Some \<lparr>line = Some 145.5, over_odds = Some (-110), under_odds = Some (-105)\<rparr>\<rparr>"

text \<open>A provider with no statistics and no recent games for any team.\<close>

definition default_api :: api where
  "default_api = \<lparr>get_team_stats = (\<lambda>_. Map.empty), get_recent_games = (\<lambda>_. [])\<rparr>"


text \<open>
  Team 1 has won its two recent home games by 25 and by 26; team 2 has no recent game;
  no statistics for either.
\<close>

definition recent_api :: api where
  "recent_api =
     \<lparr>get_team_stats = (\<lambda>_. Map.empty),
      get_recent_games = (\<lambda>t. if t = 1 then
         [\<lparr>home_score = Some 85, away_score = Some 60, home_team_id = Some 1\<rparr>,
          \<lparr>home_score = Some 90, away_score = Some 64, home_team_id = Some 1\<rparr>]
         else [])\<rparr>"

definition example_context :: game_info where
  "example_context = example_game\<lparr>gi_odds := Some example_odds\<rparr>"

section \<open>Properties of rounding\<close>

lemma py_round_int_of_int: "py_round_int (of_int k) = k"
  by (simp add: py_round_int_def)

lemma py_round_int_ge_floor: "\<lfloor>x\<rfloor> \<le> py_round_int x"
  by (simp add: py_round_int_def Let_def)

lemma py_round_int_le_floor1: "py_round_int x \<le> \<lfloor>x\<rfloor> + 1"
  by (simp add: py_round_int_def Let_def)

lemma py_round_int_mono:
  assumes "x \<le> y"
  shows "py_round_int x \<le> py_round_int y"
proof (cases "\<lfloor>x\<rfloor> = \<lfloor>y\<rfloor>")
  case True
  then show ?thesis using assms by (auto simp: py_round_int_def Let_def)
next
  case False
  with assms have "\<lfloor>x\<rfloor> < \<lfloor>y\<rfloor>" using floor_mono[OF assms] by linarith
  then have "\<lfloor>x\<rfloor> + 1 \<le> \<lfloor>y\<rfloor>" by simp
  then show ?thesis
    using py_round_int_le_floor1[of x] py_round_int_ge_floor[of y] by linarith
qed

lemma py_round_mono: "x \<le> y \<Longrightarrow> py_round n x \<le> py_round n y"
  unfolding py_round_def
  by (intro divide_right_mono) (auto intro!: py_round_int_mono)

lemma py_round_fixed: "a * 10 ^ n = of_int k \<Longrightarrow> py_round n a = a"
  by (simp add: py_round_def py_round_int_of_int field_simps)

lemma py_round_lower: "a * 10 ^ n = of_int k \<Longrightarrow> a \<le> x \<Longrightarrow> a \<le> py_round n x"
  using py_round_mono[of a x n] py_round_fixed[of a n k] by simp

lemma py_round_upper: "a * 10 ^ n = of_int k \<Longrightarrow> x \<le> a \<Longrightarrow> py_round n x \<le> a"
  using py_round_mono[of x a n] py_round_fixed[of a n k] by simp

section \<open>The empty recent-games list\<close>

text \<open>
  C9. \<open>analyze_recent_form\<close> on an empty list of recent games returns win rate 0.5,
  average margin 0 and consistency 0.3, whatever the team id.
\<close>

theorem analyze_recent_form_empty:
  "win_rate (analyze_recent_form [] team_id) = 0.5 \<and>
   avg_margin (analyze_recent_form [] team_id) = 0 \<and>
   consistency (analyze_recent_form [] team_id) = 0.3"
  by (simp add: analyze_recent_form_def)

section \<open>The value-rating curve for spreads\<close>

lemma spread_to_probability_at_03: "spread_to_probability 0.3 = 0.50"
  by (simp add: spread_to_probability_def)

lemma clamp_bounds:
  fixes lo hi p :: real
  assumes "lo \<le> hi"
  shows "lo \<le> max lo (min hi p) \<and> max lo (min hi p) \<le> hi"
  using assms by auto

lemma spread_to_probability_bounds:
  "0.50 \<le> spread_to_probability e \<and> spread_to_probability e \<le> 0.70"
proof (cases "\<bar>e\<bar> < 0.5")
  case True
  then show ?thesis by (simp add: spread_to_probability_def)
next
  case False
  have "(0.50 :: real) \<le> 0.70" by simp
  from clamp_bounds[OF this] show ?thesis
    unfolding spread_to_probability_def Let_def using False by (simp only: if_False)
qed

lemma spread_to_probability_pos:
  "0 < e \<Longrightarrow> spread_to_probability e =
     (if e < 0.5 then 0.5
      else if e \<le> 5 then 0.5 + e * 0.015
      else if e \<le> 10 then 0.575 + (e - 5) * 0.012
      else if e \<le> 20 then 0.635 + (e - 10) * 0.006
      else 0.695 + min ((e - 20) * 0.001) 0.005)"
  unfolding spread_to_probability_def Let_def
  by (simp add: min_def max_def diff_divide_distrib)

lemma spread_to_probability_mono_pos:
  assumes "0 < e1" "e1 \<le> e2"
  shows "spread_to_probability e1 \<le> spread_to_probability e2"
proof -
  have "0 < e2" using assms by simp
  show ?thesis
    unfolding spread_to_probability_pos[OF assms(1)] spread_to_probability_pos[OF \<open>0 < e2\<close>]
    using assms by (auto simp: min_def diff_divide_distrib)
qed

text \<open>
  A negative edge reaches \<open>_spread_to_probability\<close>: the market has the away team
  favoured by 10, the model has the home team by 3, and the bet on the away side is
  rated at edge \<open>-13\<close>.
\<close>

lemma negative_edge_reached:
  "map predicted_prob
     (create_bet_from_prediction fmt game ''spread'' 3 conf
        \<lparr>spread = Some \<lparr>home_spread = Some 10, away_spread = Some (-10),
                         home_odds = None, away_odds = None\<rparr>,
         total = None\<rparr>)
   = [spread_to_probability (-13)]"
  by (simp add: create_bet_from_prediction_def Let_def)

text \<open>
  C2. The claim asks the rating to be non-increasing in the edge on negative edges. The
  code rates the edge \<open>-10\<close> at 0.515 and the larger edge \<open>-6\<close> at 0.563: beyond
  \<open>-5\<close> the bands start from the bases of the positive side (0.575, 0.635, 0.695) and
  only the increment is mirrored.
\<close>

theorem spread_to_probability_negative_edges:
  "spread_to_probability (-10) = 0.515 \<and> spread_to_probability (-6) = 0.563 \<and>
   spread_to_probability (-5) = 0.50 \<and>
   spread_to_probability (-10) < spread_to_probability (-6)"
  by (simp add: spread_to_probability_def)

section \<open>The bet score\<close>









section \<open>Selecting the best bets\<close>

lemma assign_score_idem: "assign_score (assign_score b) = assign_score b"
  by (simp add: assign_score_def)

lemma score_all_apply:
  "score_all st rs r = (if r \<in> set rs then assign_score (st r) else st r)"
proof (induction rs arbitrary: st)
  case Nil
  then show ?case by (simp add: score_all_def)
next
  case (Cons a rs)
  have step: "score_all st (a # rs) = score_all (st(a := assign_score (st a))) rs"
    by (simp only: score_all_def foldl_Cons)
  show ?case
    unfolding step Cons.IH
    by (simp add: assign_score_idem)
qed

lemma set_eligible_bets:
  "set (eligible_bets m st bs) = {r \<in> set bs. meets_odds_criteria m (odds (st r))}"
  by (auto simp: eligible_bets_def)

lemma filter_take_prefix: "prefix (filter P (take n xs)) (filter P xs)"
proof -
  have "prefix (take n xs) xs" by (rule take_is_prefix)
  then show ?thesis by (rule filter_mono_prefix)
qed

text \<open>
  C6. Whatever the bets and \<open>max_odds\<close>, \<open>select_best_bets\<close> returns at most 5 bets;
  each of them is one of the input bets, meets the odds criteria and carries the score
  computed from its own fields; the result is in descending order of score; and bets of
  equal score come in the order they have in the (filtered) input. The result is a function
  of the input, so it is deterministic.
\<close>

theorem select_best_bets_top5_sorted:
  fixes st :: "'a store"
  assumes sel: "select_best_bets max_odds st all_bets = (st', res)"
  shows "length res \<le> 5 \<and>
         (\<forall>r \<in> set res.
            r \<in> set all_bets \<and> meets_odds_criteria max_odds (odds (st' r)) \<and>
            score (st' r) =
              Some (calculate_bet_score (predicted_prob (st' r)) (odds (st' r))
                      (confidence (st' r)))) \<and>
         sorted_wrt (\<lambda>a b. score_key st' a \<ge> score_key st' b) res \<and>
         (\<forall>k. prefix (filter (\<lambda>r. score_key st' r = k) res)
                (filter (\<lambda>r. score_key st' r = k)
                   (filter (\<lambda>r. meets_odds_criteria max_odds (odds (st r))) all_bets)))"
proof -
  let ?el = "eligible_bets max_odds st all_bets"
  have st': "st' = score_all st ?el"
    using sel by (simp add: select_best_bets_def Let_def)
  have res: "res = take 5 (sorted_reverse st' ?el)"
    using sel by (simp add: st' select_best_bets_def Let_def)
  have len: "length res \<le> 5" by (simp add: res)
  have sub: "set res \<subseteq> set ?el"
    unfolding res sorted_reverse_def
    using set_take_subset[of 5 "sort_key (\<lambda>r. - score_key st' r) ?el"] by simp
  have each: "\<forall>r \<in> set res.
            r \<in> set all_bets \<and> meets_odds_criteria max_odds (odds (st' r)) \<and>
            score (st' r) =
              Some (calculate_bet_score (predicted_prob (st' r)) (odds (st' r))
                      (confidence (st' r)))"
  proof
    fix r
    assume "r \<in> set res"
    then have el: "r \<in> set ?el" using sub by blast
    then have "st' r = assign_score (st r)" by (simp add: st' score_all_apply)
    then show "r \<in> set all_bets \<and> meets_odds_criteria max_odds (odds (st' r)) \<and>
            score (st' r) =
              Some (calculate_bet_score (predicted_prob (st' r)) (odds (st' r))
                      (confidence (st' r)))"
      using el by (simp add: set_eligible_bets assign_score_def)
  qed
  have "sorted (map (\<lambda>r. - score_key st' r) (sorted_reverse st' ?el))"
    by (simp add: sorted_reverse_def)
  then have "sorted_wrt (\<lambda>a b. score_key st' a \<ge> score_key st' b) (sorted_reverse st' ?el)"
    by (simp add: sorted_map)
  then have srt: "sorted_wrt (\<lambda>a b. score_key st' a \<ge> score_key st' b) res"
    unfolding res by (rule sorted_wrt_take)
  have stable: "\<forall>k. prefix (filter (\<lambda>r. score_key st' r = k) res)
                (filter (\<lambda>r. score_key st' r = k)
                   (filter (\<lambda>r. meets_odds_criteria max_odds (odds (st r))) all_bets))"
  proof
    fix k
    have "filter (\<lambda>r. - score_key st' r = - k) (sorted_reverse st' ?el) =
          filter (\<lambda>r. - score_key st' r = - k) ?el"
      unfolding sorted_reverse_def by (rule sort_key_stable)
    then have "filter (\<lambda>r. score_key st' r = k) (sorted_reverse st' ?el) =
               filter (\<lambda>r. score_key st' r = k) ?el"
      by simp
    then have "prefix (filter (\<lambda>r. score_key st' r = k) res)
                (filter (\<lambda>r. score_key st' r = k) ?el)"
      unfolding res
      using filter_take_prefix[of "\<lambda>r. score_key st' r = k" 5 "sorted_reverse st' ?el"]
      by simp
    then show "prefix (filter (\<lambda>r. score_key st' r = k) res)
                (filter (\<lambda>r. score_key st' r = k)
                   (filter (\<lambda>r. meets_odds_criteria max_odds (odds (st r))) all_bets))"
      by (simp only: eligible_bets_def)
  qed
  from len each srt stable show ?thesis by blast
qed

lemma example_eligible: "eligible_bets (-125) example_store [10, 11, 12] = [10, 12]"
  by (simp add: eligible_bets_def example_store_def example_bet_def meets_odds_criteria_def)

lemma example_score_10: "calculate_bet_score 0.6 (-110) 0.5 = 0.5573"
  unfolding calculate_bet_score_def raw_bet_score_def american_odds_to_probability_def
    py_round_def py_round_int_def Let_def
  by simp

lemma example_score_12: "calculate_bet_score 0.65 120 0.6 = 0.6357"
  unfolding calculate_bet_score_def raw_bet_score_def american_odds_to_probability_def
    py_round_def py_round_int_def Let_def
  by simp

lemma example_key_10: "score_key (score_all example_store [10, 12]) 10 = 0.5573"
  using example_score_10
  by (simp add: score_key_def score_all_apply assign_score_def example_store_def
      example_bet_def)

lemma example_key_12: "score_key (score_all example_store [10, 12]) 12 = 0.6357"
  using example_score_12
  by (simp add: score_key_def score_all_apply assign_score_def example_store_def
      example_bet_def)

lemma example_selected: "snd (select_best_bets (-125) example_store [10, 11, 12]) = [12, 10]"
  by (simp add: select_best_bets_def Let_def example_eligible sorted_reverse_def
      example_key_10 example_key_12)

theorem select_best_bets_top5_sorted_witness:
  "snd (select_best_bets (-125) example_store [10, 11, 12]) = [12, 10] \<and>
   length (snd (select_best_bets (-125) example_store [10, 11, 12])) \<le> 5 \<and>
   meets_odds_criteria (-125)
     (odds (fst (select_best_bets (-125) example_store [10, 11, 12]) 12)) \<and>
   meets_odds_criteria (-125)
     (odds (fst (select_best_bets (-125) example_store [10, 11, 12]) 10)) \<and>
   sorted_wrt
     (\<lambda>a b. score_key (fst (select_best_bets (-125) example_store [10, 11, 12])) a
            \<ge> score_key (fst (select_best_bets (-125) example_store [10, 11, 12])) b)
     (snd (select_best_bets (-125) example_store [10, 11, 12]))"
  using select_best_bets_top5_sorted[OF prod.collapse[symmetric],
      of "-125" example_store "[10, 11, 12]"] example_selected
  by simp

text \<open>
  C10. \<open>select_best_bets\<close> writes into its input: a bet of the input list that meets the
  odds criteria has its \<open>'score'\<close> set to the computed score, whatever was there before,
  and no other key changed; every other bet of the store is as it was.
\<close>

theorem select_best_bets_frame:
  "fst (select_best_bets max_odds st all_bets) r =
     (if r \<in> set all_bets \<and> meets_odds_criteria max_odds (odds (st r))
      then (st r)\<lparr>score :=
             Some (calculate_bet_score (predicted_prob (st r)) (odds (st r))
                     (confidence (st r)))\<rparr>
      else st r)"
  by (simp add: select_best_bets_def Let_def score_all_apply set_eligible_bets
      assign_score_def)

theorem select_best_bets_frame_witness:
  "fst (select_best_bets (-125) example_store [10, 11, 12]) 10 =
     (example_store 10)\<lparr>score := Some 0.5573\<rparr> \<and>
   fst (select_best_bets (-125) example_store [10, 11, 12]) 11 = example_store 11 \<and>
   fst (select_best_bets (-125) example_store [10, 11, 12]) 13 = example_store 13"
  using select_best_bets_frame[of "-125" example_store "[10, 11, 12]" 10]
    select_best_bets_frame[of "-125" example_store "[10, 11, 12]" 11]
    select_best_bets_frame[of "-125" example_store "[10, 11, 12]" 13]
    example_score_10
  by (simp add: example_store_def example_bet_def meets_odds_criteria_def)

section \<open>Bets on the total\<close>

text \<open>
  C8. For a total, the pick is \<open>Over {line}\<close> when the prediction is above the market line
  and \<open>Under {line}\<close> otherwise; a prediction equal to the line picks Under, at the under
  odds.
\<close>

theorem create_bet_total_pick:
  "(\<exists>b. create_bet_from_prediction fmt game ''total'' prediction conf od = [b] \<and>
        pick b = (if prediction > market_total_line od
                  then ''Over '' @ fmt_str fmt (market_total_line od)
                  else ''Under '' @ fmt_str fmt (market_total_line od))) \<and>
   map pick (create_bet_from_prediction fmt game ''total'' (market_total_line od) conf od)
     = [''Under '' @ fmt_str fmt (market_total_line od)]"
  by (simp add: create_bet_from_prediction_def Let_def)

theorem create_bet_total_pick_witness:
  "market_total_line example_odds = 145.5 \<and>
   map pick (create_bet_from_prediction decimal_formatter example_game ''total''
       (market_total_line example_odds) 0.6 example_odds) = [''Under 145.5''] \<and>
   map odds (create_bet_from_prediction decimal_formatter example_game ''total''
       (market_total_line example_odds) 0.6 example_odds) = [-105]"
  using create_bet_total_pick[of decimal_formatter example_game
      "market_total_line example_odds" "0.6" example_odds]
  by (simp add: create_bet_from_prediction_def Let_def market_total_line_def example_odds_def
      decimal_formatter_def fixed_1f_def py_round_int_def)


section \<open>The early-season adjustment of totals\<close>

lemma predict_total_value:
  "fst (predict_total fromisoformat a home_id away_id game_info) =
     py_round 1 (max 110 (min 200
       (early_season_adjustment fromisoformat game_info
          (projected_total (get_team_stats a home_id) (get_team_stats a away_id)
             (get_recent_games a home_id) (get_recent_games a away_id) game_info))))"
  by (simp add: predict_total_def Let_def)

text \<open>
  C7. The adjustment multiplies the projected total by 0.95 when the start date is in
  November and by 0.97 when it is in December, day 1 to 14. For every other date, for a
  start date that does not parse, that is not a string or that is absent, and without a
  game context, the total is unchanged. The function has a value in every case: nothing is
  raised.
\<close>

theorem early_season_adjustment_cases:
  "(gi_start_date g = Some (DateStr s) \<and> fromisoformat (date_part s) = Some (y, m, d) \<longrightarrow>
      early_season_adjustment fromisoformat (Some g) t =
        (if m = 11 then t * 0.95 else if m = 12 \<and> d \<le> 14 then t * 0.97 else t)) \<and>
   (gi_start_date g = Some (DateStr s) \<and> fromisoformat (date_part s) = None \<longrightarrow>
      early_season_adjustment fromisoformat (Some g) t = t) \<and>
   (gi_start_date g = Some DateOther \<longrightarrow>
      early_season_adjustment fromisoformat (Some g) t = t) \<and>
   (gi_start_date g = None \<longrightarrow> early_season_adjustment fromisoformat (Some g) t = t) \<and>
   early_season_adjustment fromisoformat None t = t \<and>
   fst (predict_total fromisoformat a home_id away_id game_info) =
     py_round 1 (max 110 (min 200
       (early_season_adjustment fromisoformat game_info
          (projected_total (get_team_stats a home_id) (get_team_stats a away_id)
             (get_recent_games a home_id) (get_recent_games a away_id) game_info))))"
  by (simp add: early_season_adjustment_def truthy_def present_def predict_total_value)

lemma iso_date_examples:
  "iso_date (date_part ''2024-11-05T00:30:00.000Z'') = Some (2024, 11, 5)"
  "iso_date (date_part ''2024-12-14'') = Some (2024, 12, 14)"
  "iso_date (date_part ''2024-12-15T19:00:00Z'') = Some (2024, 12, 15)"
  "iso_date (date_part ''tomorrow'') = None"
  by (simp_all add: iso_date_def date_part_def digit_val_def days_in_month_def)

theorem early_season_adjustment_cases_witness:
  "early_season_adjustment iso_date (Some example_game) 150 = 142.5 \<and>
   early_season_adjustment iso_date
     (Some (example_game\<lparr>gi_start_date := Some (DateStr ''2024-12-14'')\<rparr>)) 150 = 145.5 \<and>
   early_season_adjustment iso_date
     (Some (example_game\<lparr>gi_start_date := Some (DateStr ''2024-12-15T19:00:00Z'')\<rparr>)) 150
     = 150 \<and>
   early_season_adjustment iso_date
     (Some (example_game\<lparr>gi_start_date := Some (DateStr ''tomorrow'')\<rparr>)) 150 = 150 \<and>
   early_season_adjustment iso_date
     (Some (example_game\<lparr>gi_start_date := Some DateOther\<rparr>)) 150 = 150 \<and>
   early_season_adjustment iso_date
     (Some (example_game\<lparr>gi_start_date := None\<rparr>)) 150 = 150"
  using
    early_season_adjustment_cases[of example_game "''2024-11-05T00:30:00.000Z''" iso_date
      2024 11 5 150]
    early_season_adjustment_cases[of
      "example_game\<lparr>gi_start_date := Some (DateStr ''2024-12-14'')\<rparr>" "''2024-12-14''"
      iso_date 2024 12 14 150]
    early_season_adjustment_cases[of
      "example_game\<lparr>gi_start_date := Some (DateStr ''2024-12-15T19:00:00Z'')\<rparr>"
      "''2024-12-15T19:00:00Z''" iso_date 2024 12 15 150]
    early_season_adjustment_cases[of
      "example_game\<lparr>gi_start_date := Some (DateStr ''tomorrow'')\<rparr>" "''tomorrow''"
      iso_date 0 0 0 150]
    early_season_adjustment_cases[of
      "example_game\<lparr>gi_start_date := Some DateOther\<rparr>" "''x''" iso_date 0 0 0 150]
    early_season_adjustment_cases[of
      "example_game\<lparr>gi_start_date := None\<rparr>" "''x''" iso_date 0 0 0 150]
    iso_date_examples
  by (simp add: example_game_def)

section \<open>A symmetric matchup without history\<close>


lemma game_pace_symmetric: "game_pace s s = validate_pace (pace (calculate_team_metrics s))"
  by (simp add: game_pace_def Let_def algebra_simps)

lemma validate_pace_range: "55 \<le> validate_pace p \<and> validate_pace p \<le> 85"
  by (simp add: validate_pace_def)

lemma home_court_difference:
  fixes e g :: real
  shows "(e + 3.5) * g / 100 - e * g / 100 = 3.5 * g / 100"
  by (simp add: field_simps)

lemma projected_scores_symmetric:
  "fst (projected_scores s s w) - snd (projected_scores s s w) = 3.5 * game_pace s s / 100"
proof -
  define e where "e =
     validate_rating (offensive_rating (calculate_team_metrics s)) * w + 100.0 * (1 - w)
     + (validate_rating (defensive_rating (calculate_team_metrics s)) * w + 100.0 * (1 - w)
        - 100.0)"
  have "projected_scores s s w = ((e + 3.5) * game_pace s s / 100, e * game_pace s s / 100)"
    unfolding projected_scores_def Let_def e_def by (rule refl)
  then show ?thesis by (simp only: fst_conv snd_conv home_court_difference)
qed

lemma avg_margin_empty: "avg_margin (analyze_recent_form [] t) = 0"
  by (simp add: analyze_recent_form_def)

lemma consistency_empty: "consistency (analyze_recent_form [] t) = 0.3"
  by (simp add: analyze_recent_form_def)

lemma unblended_spread_eq:
  "unblended_spread hs as hr ar h w gi =
     fst (projected_scores hs as (spread_regression_weight hs as hr ar gi))
     - snd (projected_scores hs as (spread_regression_weight hs as hr ar gi))
     + max (-5) (min 5 ((avg_margin (analyze_recent_form hr h)
                         - avg_margin (analyze_recent_form ar w)) * 0.10))"
  by (simp add: unblended_spread_def Let_def case_prod_beta)

lemma unblended_spread_symmetric:
  "unblended_spread s s [] [] h w gi = 3.5 * game_pace s s / 100"
  unfolding unblended_spread_eq projected_scores_symmetric avg_margin_empty
  by simp

lemma market_blend_none: "market_home_spread gi = None \<Longrightarrow> market_blend gi n x = x"
  by (simp add: market_blend_def)

lemma spread_confidence_empty:
  "\<bar>x\<bar> \<le> 15 \<Longrightarrow> spread_confidence 0.3 0.3 0 x = 0.36"
  by (simp add: spread_confidence_def Let_def)

lemma py_round_036: "py_round 3 0.36 = 0.36"
  by (rule py_round_fixed[of _ _ 360]) simp

lemma predict_spread_no_history:
  assumes "get_team_stats a h = get_team_stats a w"
    and "get_recent_games a h = []" and "get_recent_games a w = []"
    and "market_home_spread gi = None"
  shows "predict_spread a h w gi =
           (py_round 1 (3.5 * game_pace (get_team_stats a h) (get_team_stats a h) / 100), 0.36)"
proof -
  let ?s = "get_team_stats a h"
  let ?x = "3.5 * game_pace ?s ?s / 100"
  have r: "55 \<le> game_pace ?s ?s \<and> game_pace ?s ?s \<le> 85"
    unfolding game_pace_symmetric by (rule validate_pace_range)
  then have x: "1.925 \<le> ?x \<and> ?x \<le> 2.975" by simp
  then have cl: "max (-50) (min 50 ?x) = ?x" by simp
  have ab: "\<bar>?x\<bar> \<le> 15" using x by simp
  have u: "unblended_spread ?s ?s [] [] h w gi = ?x" by (rule unblended_spread_symmetric)
  have n: "length ([] :: recent_game list) + length ([] :: recent_game list) = 0" by simp
  show ?thesis
    unfolding predict_spread_def Let_def
    unfolding assms(1)[symmetric] assms(2,3) u market_blend_none[OF assms(4)] cl
      consistency_empty n
    by (simp only: spread_confidence_empty[OF ab] py_round_036)
qed






text \<open>
  C1, as stated, fails for the spread: the floor of 0.40 is applied before the penalties,
  and with no statistics and no recent games the confidence is 0.40 * 0.90 = 0.36.
\<close>

theorem predict_spread_confidence_below_floor:
  "snd (predict_spread default_api 1 2 None) = 0.36 \<and>
   snd (predict_spread default_api 1 2 None) < 0.40"
proof -
  have "predict_spread default_api 1 2 None =
          (py_round 1 (3.5 * game_pace (get_team_stats default_api 1)
                                (get_team_stats default_api 1) / 100), 0.36)"
    by (rule predict_spread_no_history)
       (simp_all add: default_api_def market_home_spread_def)
  then show ?thesis by simp
qed

section \<open>Blending towards the market\<close>

lemma truthy_market: "market_home_spread gi = Some m \<Longrightarrow> truthy gi"
  by (auto simp: market_home_spread_def truthy_def present_def split: option.splits)

lemma blend_factor_20:
  "blend_factor 20 n = 0.60 + max 0.3 ((15 - real n) / 15) * 0.20"
  by (simp add: blend_factor_def Let_def)

lemma blend_factor_20_bounds:
  assumes "n < 15"
  shows "0.66 \<le> blend_factor 20 n \<and> blend_factor 20 n \<le> 0.80"
proof -
  have "(15 - real n) / 15 \<le> 1" by simp
  then have "max 0.3 ((15 - real n) / 15) \<le> 1" by simp
  moreover have "0.3 \<le> max 0.3 ((15 - real n) / 15)" by simp
  ultimately show ?thesis unfolding blend_factor_20 by simp
qed

lemma market_blend_20_5:
  assumes "market_home_spread gi = Some (-20)" and "n < 15"
  shows "market_blend gi n 5 = 5 + 15 * blend_factor 20 n"
  using assms truthy_market[OF assms(1)] by (simp add: market_blend_def Let_def)

text \<open>
  C3. The market has the home team by 20 (home spread -20), the model has it by 5 before
  blending, and the two teams have fewer than 15 recent games together. Then the blend
  factor is 0.60 + games factor * 0.20 with the games factor max(0.3, (15 - n)/15), which
  is within 0.60 and 0.80; the market step adds 15 times the blend factor to the spread;
  and the spread that \<open>predict_spread\<close> returns is that value rounded to one decimal,
  strictly between 5 and 20.
\<close>

theorem market_blend_toward_favorite:
  fixes a :: api and h w :: int
  defines "n \<equiv> length (get_recent_games a h) + length (get_recent_games a w)"
  assumes m: "market_home_spread gi = Some (-20)"
    and n: "length (get_recent_games a h) + length (get_recent_games a w) < 15"
    and u: "unblended_spread (get_team_stats a h) (get_team_stats a w)
              (get_recent_games a h) (get_recent_games a w) h w gi = 5"
  shows "blend_factor 20 n = 0.60 + max 0.3 ((15 - real n) / 15) * 0.20 \<and>
         0.60 \<le> blend_factor 20 n \<and> blend_factor 20 n \<le> 0.80 \<and>
         market_blend gi n 5 = 5 + 15 * blend_factor 20 n \<and>
         5 < market_blend gi n 5 \<and> market_blend gi n 5 < 20 \<and>
         fst (predict_spread a h w gi) = py_round 1 (5 + 15 * blend_factor 20 n) \<and>
         5 < fst (predict_spread a h w gi) \<and> fst (predict_spread a h w gi) < 20"
proof -
  have n15: "n < 15" using n by (simp add: n_def)
  note b = blend_factor_20_bounds[OF n15]
  have mb: "market_blend gi n 5 = 5 + 15 * blend_factor 20 n"
    by (rule market_blend_20_5[OF m n15])
  have rng: "14.9 \<le> 5 + 15 * blend_factor 20 n \<and> 5 + 15 * blend_factor 20 n \<le> 17"
    using b by simp
  then have cl: "max (-50) (min 50 (5 + 15 * blend_factor 20 n)) = 5 + 15 * blend_factor 20 n"
    by simp
  have ps: "fst (predict_spread a h w gi) = py_round 1 (5 + 15 * blend_factor 20 n)"
    unfolding predict_spread_def Let_def fst_conv u n_def[symmetric] mb cl by (rule refl)
  have k1: "(14.9 :: real) * 10 ^ 1 = of_int 149" by simp
  have k2: "(17 :: real) * 10 ^ 1 = of_int 170" by simp
  have lo: "14.9 \<le> py_round 1 (5 + 15 * blend_factor 20 n)"
    using py_round_lower[OF k1] rng by blast
  have hi: "py_round 1 (5 + 15 * blend_factor 20 n) \<le> 17"
    using py_round_upper[OF k2] rng by blast
  show ?thesis
    using b mb rng ps lo hi blend_factor_20[of n] by simp
qed

lemma recent_api_margin: "avg_margin (analyze_recent_form (get_recent_games recent_api 1) 1) = 25.5"
  by (simp add: recent_api_def analyze_recent_form_def Let_def team_score_def opp_score_def
      is_home_def np_mean_def)

lemma default_projected_scores:
  "fst (projected_scores Map.empty Map.empty r) - snd (projected_scores Map.empty Map.empty r)
     = 2.45"
  unfolding projected_scores_symmetric
  by (simp add: game_pace_def calculate_team_metrics_def stats_get_def validate_pace_def
      Let_def)

lemma recent_api_unblended:
  "unblended_spread (get_team_stats recent_api 1) (get_team_stats recent_api 2)
     (get_recent_games recent_api 1) (get_recent_games recent_api 2) 1 2
     (Some example_context) = 5"
proof -
  have s: "get_team_stats recent_api 1 = Map.empty" "get_team_stats recent_api 2 = Map.empty"
    by (simp_all add: recent_api_def)
  have e: "get_recent_games recent_api 2 = []" by (simp add: recent_api_def)
  show ?thesis
    unfolding unblended_spread_eq recent_api_margin
    unfolding s e avg_margin_empty default_projected_scores
    by simp
qed

theorem market_blend_toward_favorite_witness:
  "market_home_spread (Some example_context) = Some (-20) \<and>
   market_blend (Some example_context) 2 5 = 16.6 \<and>
   fst (predict_spread recent_api 1 2 (Some example_context)) = py_round 1 16.6 \<and>
   5 < fst (predict_spread recent_api 1 2 (Some example_context)) \<and>
   fst (predict_spread recent_api 1 2 (Some example_context)) < 20"
proof -
  have m: "market_home_spread (Some example_context) = Some (-20)"
    by (simp add: market_home_spread_def example_context_def example_odds_def)
  have n: "length (get_recent_games recent_api 1) + length (get_recent_games recent_api 2) = 2"
    by (simp add: recent_api_def)
  have n': "length (get_recent_games recent_api 1) + length (get_recent_games recent_api 2) < 15"
    unfolding n by simp
  have bf: "blend_factor 20 2 = 58 / 75"
    by (simp add: blend_factor_def Let_def)
  show ?thesis
    using market_blend_toward_favorite[OF m n' recent_api_unblended] m
    unfolding n bf by simp
qed

section \<open>Confidence of the predictions\<close>

lemma spread_confidence_bounds:
  "0.306 \<le> spread_confidence hc ac n x \<and> spread_confidence hc ac n x \<le> 0.85"
proof -
  define c0 where "c0 = max 0.40 ((hc + ac) / 2)"
  have c0: "0.40 \<le> c0" by (simp add: c0_def)
  define c1 where "c1 = (if n < 4 then c0 * 0.90 else if n < 8 then c0 * 0.95 else c0)"
  have c1: "0.36 \<le> c1" using c0 by (simp add: c1_def)
  define c2 where "c2 =
     (if \<bar>x\<bar> > 30 then c1 * 0.85 else if \<bar>x\<bar> > 20 then c1 * 0.92
      else if \<bar>x\<bar> > 15 then c1 * 0.96 else c1)"
  have c2: "0.306 \<le> c2" using c1 by (simp add: c2_def)
  have "spread_confidence hc ac n x = min c2 0.85"
    by (simp add: spread_confidence_def Let_def c2_def c1_def c0_def)
  then show ?thesis using c2 by simp
qed

lemma total_confidence_bounds:
  "0.35 \<le> total_confidence hc ac n t pd \<and> total_confidence hc ac n t pd \<le> 0.75"
  unfolding total_confidence_def Let_def
  by (rule clamp_bounds) simp

text \<open>
  C1, amended. The confidence of \<open>predict_spread\<close> lies in [0.306, 0.85] (the floor 0.40
  times the largest penalties 0.90 and 0.85, and the cap 0.85); the confidence of
  \<open>predict_total\<close> lies in [0.35, 0.75]. Both hold for every provider, every pair of teams
  and every context.
\<close>

theorem prediction_confidence_bounds:
  "0.306 \<le> snd (predict_spread a home_id away_id game_info) \<and>
   snd (predict_spread a home_id away_id game_info) \<le> 0.85 \<and>
   0.35 \<le> snd (predict_total fromisoformat a home_id away_id game_info) \<and>
   snd (predict_total fromisoformat a home_id away_id game_info) \<le> 0.75"
proof -
  have k1: "(0.306 :: real) * 10 ^ 3 = of_int 306" by simp
  have k2: "(0.85 :: real) * 10 ^ 3 = of_int 850" by simp
  have k3: "(0.35 :: real) * 10 ^ 3 = of_int 350" by simp
  have k4: "(0.75 :: real) * 10 ^ 3 = of_int 750" by simp
  have s: "\<exists>hc ac n x. snd (predict_spread a home_id away_id game_info) =
             py_round 3 (spread_confidence hc ac n x)"
    unfolding predict_spread_def Let_def by (simp only: snd_conv) blast
  have t: "\<exists>hc ac n x pd. snd (predict_total fromisoformat a home_id away_id game_info) =
             py_round 3 (total_confidence hc ac n x pd)"
    unfolding predict_total_def Let_def by (simp only: snd_conv) blast
  from s obtain hc ac n x where
    s': "snd (predict_spread a home_id away_id game_info) =
           py_round 3 (spread_confidence hc ac n x)" by blast
  from t obtain hc' ac' n' x' pd where
    t': "snd (predict_total fromisoformat a home_id away_id game_info) =
           py_round 3 (total_confidence hc' ac' n' x' pd)" by blast
  show ?thesis
    unfolding s' t'
    using py_round_lower[OF k1, of "spread_confidence hc ac n x"]
      py_round_upper[OF k2, of "spread_confidence hc ac n x"]
      py_round_lower[OF k3, of "total_confidence hc' ac' n' x' pd"]
      py_round_upper[OF k4, of "total_confidence hc' ac' n' x' pd"]
      spread_confidence_bounds[of hc ac n x] total_confidence_bounds[of hc' ac' n' x' pd]
    by blast
qed

end
